theory Spec2Isabelle
  imports Complex_Main "HOL-Library.Sublist"
begin

section \<open>Data model\<close>

text \<open>
  The catalog is the pandas DataFrame handed to the two functions. It is modelled as the
  list of its rows in catalog order; the frame's index is the default one, so that the
  label of a row is its position (the positional invariant of the data model: row \<open>i\<close>
  of the similarity matrix is row \<open>i\<close> of the catalog). A cell that holds NaN (a missing
  value) is \<open>None\<close>. Names are text. Strings are lists of 8-bit characters and the model
  of \<open>lower\<close> and \<open>strip\<close> is the one of ASCII text.

  The five columns that \<open>content_based_recommendation\<close> returns form the record
  \<open>product_details\<close>; a catalog row extends it with the columns that only the engine
  reads, so that selecting the five columns is \<open>product_details.truncate\<close>.
\<close>

record product_details =
  Name :: string
  Brand :: "string option"
  Rating :: real
  ReviewCount :: nat
  ImageURL :: string

record item = product_details +
  Category :: "string option"
  Tags :: "string option"

text \<open>The exceptions that can leave the two functions.\<close>

datatype error = ReError | ValueError | ZeroDivisionError

text \<open>
  The argument \<open>item_name\<close> of \<open>content_based_recommendation\<close> is any Python value;
  the values that matter to the validation are a string, \<open>None\<close>, an integer and a
  boolean.
\<close>

datatype py_value = PStr string | PNone | PInt int | PBool bool

text \<open>
  The two library calls whose results the code consumes are parameters of the model.
  \<^item> \<open>re_compile\<close> is Python's \<open>re\<close> on a pattern that holds a regular-expression
    operator other than the dot: it raises \<open>re.error\<close> on a malformed pattern and
    otherwise gives the search predicate of the pattern.
  \<^item> \<open>tfidf_cosine\<close> is \<open>TfidfVectorizer(stop_words="english").fit_transform\<close> followed
    by \<open>cosine_similarity\<close>, on the list of tags: it raises \<open>ValueError\<close> when no tag
    holds a word of the vocabulary, and otherwise gives the entry of the square
    similarity matrix at a row and a column. Its floating-point entries are modelled
    as reals.
\<close>

record library =
  re_compile :: "string \<Rightarrow> error + (string \<Rightarrow> bool)"
  tfidf_cosine :: "string list \<Rightarrow> error + (nat \<Rightarrow> nat \<Rightarrow> real)"

section \<open>Python and pandas primitives\<close>

text \<open>\<open>str.isspace\<close> on an ASCII character.\<close>

definition is_space :: "char \<Rightarrow> bool" where
  "is_space c =
     (c \<in> set [CHR 0x09, CHR 0x0A, CHR 0x0B, CHR 0x0C, CHR 0x0D,
               CHR 0x1C, CHR 0x1D, CHR 0x1E, CHR 0x1F, CHR 0x20])"

definition strip :: "string \<Rightarrow> string" where
  "strip s = rev (dropWhile is_space (rev (dropWhile is_space s)))"

definition lower_char :: "char \<Rightarrow> char" where
  "lower_char c =
     (if (65::nat) \<le> of_char c \<and> of_char c \<le> (90::nat)
      then char_of (of_char c + (32::nat)) else c)"

definition lower :: "string \<Rightarrow> string" where
  "lower s = map lower_char s"

text \<open>\<open>not v\<close>: the truth value of a Python value, negated.\<close>

fun py_not :: "py_value \<Rightarrow> bool" where
  "py_not (PStr s) = (s = [])"
| "py_not PNone = True"
| "py_not (PInt i) = (i = 0)"
| "py_not (PBool b) = (b = False)"

text \<open>
  \<open>Series.str.contains(pat, na=False)\<close> keeps its default \<open>regex=True\<close>: the pattern
  is compiled as a regular expression and searched in every name. The operators of
  Python's \<open>re\<close> are the characters \<open>. ^ $ * + ? { } [ ] \ | ( )\<close>. A pattern of
  ordinary characters and dots is searched here: an ordinary character matches itself
  and a dot matches any character but the newline. A pattern with another operator
  goes to \<open>re_compile\<close>.
\<close>

definition re_operators :: "char list" where
  "re_operators =
     [CHR ''^'', CHR ''$'', CHR ''*'', CHR ''+'', CHR ''?'', CHR ''{'', CHR ''}'',
      CHR ''['', CHR '']'', CHR 0x5C, CHR ''|'', CHR ''('', CHR '')'']"

fun match_here :: "string \<Rightarrow> string \<Rightarrow> bool" where
  "match_here [] s = True"
| "match_here (p # ps) [] = False"
| "match_here (p # ps) (c # cs) =
     ((if p = CHR ''.'' then c \<noteq> CHR 0x0A else c = p) \<and> match_here ps cs)"

fun re_search :: "string \<Rightarrow> string \<Rightarrow> bool" where
  "re_search p [] = match_here p []"
| "re_search p (c # cs) = (match_here p (c # cs) \<or> re_search p cs)"

definition str_contains :: "library \<Rightarrow> string \<Rightarrow> error + (string \<Rightarrow> bool)" where
  "str_contains L pat =
     (if list_ex (\<lambda>c. c \<in> set re_operators) pat then re_compile L pat
      else Inr (re_search pat))"

text \<open>
  \<open>xs[start:stop]\<close>: a negative bound counts from the end, and both bounds are clipped
  to the list. The subtraction on \<open>nat\<close> truncates at 0, as the empty slice does when
  the upper bound is not above the lower one.
\<close>

definition slice_bound :: "nat \<Rightarrow> int \<Rightarrow> nat" where
  "slice_bound n i = (if i < 0 then nat (int n + i) else min (nat i) n)"

definition py_slice :: "'a list \<Rightarrow> int \<Rightarrow> int \<Rightarrow> 'a list" where
  "py_slice xs start stop =
     (let lo = slice_bound (length xs) start; hi = slice_bound (length xs) stop
      in take (hi - lo) (drop lo xs))"

text \<open>
  \<open>data[col] == v\<close> on one cell: NaN is equal to nothing, and neither is \<open>None\<close>.
\<close>

definition col_eq :: "string option \<Rightarrow> string option \<Rightarrow> bool" where
  "col_eq cell v =
     (case cell of None \<Rightarrow> False
      | Some x \<Rightarrow> (case v of None \<Rightarrow> False | Some y \<Rightarrow> x = y))"

text \<open>The truth value of a cell: NaN is a non-zero float, the empty string is false.\<close>

definition cell_truth :: "string option \<Rightarrow> bool" where
  "cell_truth v = (case v of None \<Rightarrow> True | Some s \<Rightarrow> s \<noteq> [])"

text \<open>\<open>data["Tags"].fillna("")\<close> on one cell.\<close>

definition fillna :: "string option \<Rightarrow> string" where
  "fillna v = (case v of None \<Rightarrow> [] | Some s \<Rightarrow> s)"

section \<open>content\_based\_filtering.py\<close>

text \<open>
  Steps 1 and 2 of \<open>content_based_recommendation\<close>: validation, normalisation of the
  query and the choice of \<open>item_index\<close>. \<open>Inr None\<close> is the early return of the empty
  DataFrame.
\<close>

definition resolve_anchor :: "library \<Rightarrow> item list \<Rightarrow> py_value \<Rightarrow> error + nat option" where
  "resolve_anchor L data item_name =
     (if py_not item_name then Inr None
      else case item_name of
        PStr s \<Rightarrow>
          (case str_contains L (strip (lower s)) of
             Inl e \<Rightarrow> Inl e
           | Inr contains \<Rightarrow>
               (case filter (\<lambda>i. contains (lower (Name (data ! i)))) [0..<length data] of
                  [] \<Rightarrow> Inr None
                | item_index # rest \<Rightarrow> Inr (Some item_index)))
      | PNone \<Rightarrow> Inr None
      | PInt i \<Rightarrow> Inr None
      | PBool b \<Rightarrow> Inr None)"

text \<open>
  Step 5: the row of the anchor is enumerated, sorted by score with \<open>reverse=True\<close>
  (Python's sort is stable, also when reversed: equal scores keep their order), the
  first entry is skipped and the next \<open>top_n\<close> are kept.
\<close>

definition similarity_scores :: "(nat \<Rightarrow> nat \<Rightarrow> real) \<Rightarrow> nat \<Rightarrow> nat \<Rightarrow> (nat \<times> real) list" where
  "similarity_scores similarity_matrix item_index n =
     sort_key (\<lambda>x. - snd x) (map (\<lambda>j. (j, similarity_matrix item_index j)) [0..<n])"

definition top_similar_indices :: "(nat \<Rightarrow> nat \<Rightarrow> real) \<Rightarrow> nat \<Rightarrow> nat \<Rightarrow> int \<Rightarrow> nat list" where
  "top_similar_indices similarity_matrix item_index n top_n =
     map fst (py_slice (similarity_scores similarity_matrix item_index n) 1 (top_n + 1))"

definition content_based_recommendation ::
  "library \<Rightarrow> item list \<Rightarrow> py_value \<Rightarrow> int \<Rightarrow> error + product_details list" where
  "content_based_recommendation L data item_name top_n =
     (case resolve_anchor L data item_name of
        Inl e \<Rightarrow> Inl e
      | Inr None \<Rightarrow> Inr []
      | Inr (Some item_index) \<Rightarrow>
          (case tfidf_cosine L (map (\<lambda>r. fillna (Tags r)) data) of
             Inl e \<Rightarrow> Inl e
           | Inr similarity_matrix \<Rightarrow>
               Inr (map (\<lambda>i. product_details.truncate (data ! i))
                      (top_similar_indices similarity_matrix item_index (length data) top_n))))"

section \<open>evaluation\_content.py\<close>

text \<open>
  The three values that \<open>evaluate_content_based_metrics\<close> returns: \<open>True\<close> when the
  item is not found, \<open>None\<close> when there is no recommendation, and the dictionary of the
  three scores. The scores are Python floats; they are modelled as reals, exact on the
  small quotients of integers that the function computes.
\<close>

record metrics =
  precision :: real
  recall :: real
  f1 :: real

datatype eval_result = RTrue | RNone | RDict metrics

definition relevant_items :: "item list \<Rightarrow> string option \<Rightarrow> string set" where
  "relevant_items data item_category =
     (if cell_truth item_category
      then set (map Name (filter (\<lambda>r. col_eq (Category r) item_category) data))
      else {})
     \<union> set (map Name (filter (\<lambda>r. col_eq (Brand r) item_category) data))"

definition f1_score :: "real \<Rightarrow> real \<Rightarrow> error + real" where
  "f1_score p r =
     (if p + r > 0
      then (if p * r = 0 then Inl ZeroDivisionError else Inr (2 * (p * r) / (p * r)))
      else Inr 0)"

definition evaluate_content_based_metrics ::
  "library \<Rightarrow> item list \<Rightarrow> string \<Rightarrow> int \<Rightarrow> error + eval_result" where
  "evaluate_content_based_metrics L data item_name top_n =
     (case filter (\<lambda>r. Name r = item_name) data of
        [] \<Rightarrow> Inr RTrue
      | item_data # others \<Rightarrow>
          (let relevant = relevant_items data (Category item_data);
               total_relevant = int (card relevant) - 1
           in case content_based_recommendation L data (PStr item_name) top_n of
                Inl e \<Rightarrow> Inl e
              | Inr recs \<Rightarrow>
                  if recs = [] then Inr RNone
                  else
                    (let recommend_names = set (map Name recs);
                         true_positives = card (recommend_names \<inter> relevant)
                     in if top_n = 0 then Inl ZeroDivisionError
                        else
                          (let p = real true_positives / real_of_int top_n;
                               r = (if total_relevant > 0
                                    then real true_positives / real_of_int total_relevant
                                    else 0)
                           in case f1_score p r of
                                Inl e \<Rightarrow> Inl e
                              | Inr f \<Rightarrow>
                                  Inr (RDict \<lparr>precision = p, recall = r, f1 = f\<rparr>)))))"

section \<open>Concrete catalogs\<close>

text \<open>
  The catalogs of the examples below have one word of tags per row (a word of two
  letters or more that is no English stop word). On such a catalog the TF-IDF vector
  of a row is the unit vector of its word, so the cosine of two rows is 1 when their
  words are the same and 0 when they differ, exactly, also in floating point.
  \<open>one_word_tags\<close> is the library on these catalogs. Its \<open>re_compile\<close> answers
  \<open>re.error\<close>; no example reaches it.
\<close>

definition one_word_tags :: library where
  "one_word_tags =
     \<lparr>re_compile = (\<lambda>pat. Inl ReError),
      tfidf_cosine = (\<lambda>tags. Inr (\<lambda>i j. if tags ! i = tags ! j then 1 else 0))\<rparr>"

definition row :: "string \<Rightarrow> string \<Rightarrow> string \<Rightarrow> item" where
  "row n c t =
     \<lparr>Name = n, Brand = Some ''acme'', Rating = 4, ReviewCount = 10, ImageURL = [],
      Category = Some c, Tags = Some t\<rparr>"

definition details :: "string \<Rightarrow> product_details" where
  "details n = \<lparr>Name = n, Brand = Some ''acme'', Rating = 4, ReviewCount = 10, ImageURL = []\<rparr>"

section \<open>The scores of the specification\<close>

text \<open>
  The F1 of the specification: the harmonic mean of precision and recall, 0 when both
  are 0.
\<close>

definition harmonic_mean :: "real \<Rightarrow> real \<Rightarrow> real" where
  "harmonic_mean p r = (if p + r = 0 then 0 else 2 * p * r / (p + r))"


section \<open>Unfolding the model\<close>

lemmas recommendation_defs = content_based_recommendation_def resolve_anchor_def
  str_contains_def re_operators_def strip_def lower_def lower_char_def is_space_def
  top_similar_indices_def similarity_scores_def py_slice_def slice_bound_def fillna_def
  product_details.truncate_def

lemmas evaluation_defs = evaluate_content_based_metrics_def relevant_items_def col_eq_def
  cell_truth_def f1_score_def

lemmas example_defs = one_word_tags_def row_def details_def

section \<open>Validation\<close>




section \<open>The three outcomes of the evaluation\<close>

text \<open>
  C5. When no row of the catalog has the name \<open>item_name\<close>,
  \<open>evaluate_content_based_metrics\<close> returns \<open>True\<close>, the not-found signal: it raises
  nothing and the value is no record of scores.
\<close>

theorem absent_item_not_found:
  assumes "item_name \<notin> set (map Name data)"
  shows "evaluate_content_based_metrics L data item_name top_n = Inr RTrue
         \<and> (\<forall>m. evaluate_content_based_metrics L data item_name top_n \<noteq> Inr (RDict m))"
proof -
  have "filter (\<lambda>r. Name r = item_name) data = []"
    using assms by (auto simp: filter_empty_conv)
  then show ?thesis
    by (simp add: evaluate_content_based_metrics_def)
qed

theorem absent_item_not_found_witness:
  "evaluate_content_based_metrics one_word_tags
     [row ''soap'' ''bath'' ''cream'', row ''lotion'' ''bath'' ''cream''] ''towel'' 5 = Inr RTrue
   \<and> (\<forall>m. evaluate_content_based_metrics one_word_tags
     [row ''soap'' ''bath'' ''cream'', row ''lotion'' ''bath'' ''cream''] ''towel'' 5 \<noteq> Inr (RDict m))"
  using absent_item_not_found [of "''towel''"
      "[row ''soap'' ''bath'' ''cream'', row ''lotion'' ''bath'' ''cream'']" one_word_tags 5]
  by (simp add: row_def)

text \<open>
  C10. When a row of the catalog has the name \<open>item_name\<close> and
  \<open>content_based_recommendation\<close> returns the empty frame for it, the evaluation
  returns \<open>None\<close>: a third value, neither the not-found signal \<open>True\<close> nor a record of
  scores.
\<close>

theorem present_item_without_recommendations:
  assumes "item_name \<in> set (map Name data)"
    and "content_based_recommendation L data (PStr item_name) top_n = Inr []"
  shows "evaluate_content_based_metrics L data item_name top_n = Inr RNone
         \<and> RNone \<noteq> RTrue \<and> (\<forall>m. RNone \<noteq> RDict m)"
proof -
  obtain item_data others where "filter (\<lambda>r. Name r = item_name) data = item_data # others"
    using assms(1)
    by (cases "filter (\<lambda>r. Name r = item_name) data") (auto simp: filter_empty_conv)
  then show ?thesis
    using assms(2) by (simp add: evaluate_content_based_metrics_def Let_def)
qed

theorem present_item_without_recommendations_witness:
  "evaluate_content_based_metrics one_word_tags [row ''soap'' ''bath'' ''cream''] ''soap'' 10
     = Inr RNone
   \<and> content_based_recommendation one_word_tags [row ''soap'' ''bath'' ''cream'']
       (PStr ''soap'') 10 = Inr []"
proof -
  have recs: "content_based_recommendation one_word_tags [row ''soap'' ''bath'' ''cream'']
      (PStr ''soap'') 10 = Inr []"
    by (simp add: recommendation_defs example_defs)
  have found: "''soap'' \<in> set (map Name [row ''soap'' ''bath'' ''cream''])"
    by (simp add: row_def)
  show ?thesis
    using present_item_without_recommendations [OF found recs] recs by simp
qed

section \<open>The F1 score\<close>

text \<open>
  Line 46 divides by \<open>precision * recall\<close>, so the quotient is 2 whenever it is
  defined: the only scores the function can report are 0 and 2.
\<close>

lemma f1_score_values: "f1_score p r = Inr f \<Longrightarrow> f = 0 \<or> f = 2"
  by (auto simp: f1_score_def split: if_splits)

lemma f1_score_raises: "p + r > 0 \<Longrightarrow> p * r = 0 \<Longrightarrow> f1_score p r = Inl ZeroDivisionError"
  by (simp add: f1_score_def)

text \<open>
  C1 (the code departs from it). Three rows share the category and the tags; the query
  is the first one and \<open>top_n\<close> is 2. Both other rows are retrieved and both are
  relevant, so precision and recall are 1 and their harmonic mean is 1. The function
  returns the F1 value 2.
\<close>

theorem f1_is_two_not_harmonic_mean:
  "evaluate_content_based_metrics one_word_tags
     [row ''soap'' ''bath'' ''cream'', row ''lotion'' ''bath'' ''cream'',
      row ''balm'' ''bath'' ''cream'']
     ''soap'' 2 = Inr (RDict \<lparr>precision = 1, recall = 1, f1 = 2\<rparr>)
   \<and> harmonic_mean 1 1 = 1"
  by (simp add: recommendation_defs evaluation_defs example_defs harmonic_mean_def upt_rec)

text \<open>
  C2 (the code departs from it). The query \<open>soap\<close> names the second row, the only one
  of its category, so the relevant names are \<open>{soap}\<close> and \<open>total_relevant\<close> is 0. The
  recommender anchors at the first row whose name contains the query, \<open>hand soap\<close>, and
  retrieves the row \<open>soap\<close>. Precision is 1, recall is 0, their sum is positive and
  their product is 0: line 46 raises ZeroDivisionError.
\<close>

theorem f1_division_by_zero:
  "evaluate_content_based_metrics one_word_tags
     [row ''hand soap'' ''bath'' ''cream'', row ''soap'' ''kitchen'' ''cream''] ''soap'' 1
   = Inl ZeroDivisionError"
  by (simp add: recommendation_defs evaluation_defs example_defs upt_rec)

section \<open>The anchor\<close>

text \<open>
  C3 (the code departs from it). Two rows carry the same tags and the query names the
  second. Both scores of the anchor's row are 1, the stable sort keeps the catalog
  order, and the entry that is skipped is the first row: the anchor itself is returned.
\<close>

theorem anchor_returned_after_duplicate:
  "resolve_anchor one_word_tags
     [row ''soap'' ''bath'' ''cream'', row ''lotion'' ''bath'' ''cream'']
     (PStr ''lotion'') = Inr (Some 1)
   \<and> content_based_recommendation one_word_tags
     [row ''soap'' ''bath'' ''cream'', row ''lotion'' ''bath'' ''cream'']
     (PStr ''lotion'') 10
     = Inr [product_details.truncate
              ([row ''soap'' ''bath'' ''cream'', row ''lotion'' ''bath'' ''cream''] ! 1)]"
  by (simp add: recommendation_defs example_defs upt_rec)

text \<open>
  C6 (the code departs from it). The query is a dot. No name contains a dot, so the
  claim has the empty sequence returned; the pattern is a regular expression, the dot
  matches the first character of the first name, and the first row becomes the anchor.
\<close>

theorem dot_query_matches_without_substring:
  "resolve_anchor one_word_tags
     [row ''soap'' ''bath'' ''cream'', row ''lotion'' ''bath'' ''wax''] (PStr ''.'')
     = Inr (Some 0)
   \<and> content_based_recommendation one_word_tags
     [row ''soap'' ''bath'' ''cream'', row ''lotion'' ''bath'' ''wax''] (PStr ''.'') 10
     = Inr [details ''lotion'']
   \<and> \<not> sublist ''.'' (lower ''soap'') \<and> \<not> sublist ''.'' (lower ''lotion'')"
  by (simp add: recommendation_defs example_defs upt_rec sublist_Cons_right)


section \<open>Normalisation and matching\<close>

text \<open>
  The model of \<open>lower\<close> and \<open>strip\<close> on two strings, and the search of a pattern
  without operators: it is the substring test.
\<close>

lemma lower_example: "lower ''Hand Soap'' = ''hand soap''"
  by code_simp

lemma strip_example: "strip '' a b  '' = ''a b''"
  by (simp add: strip_def is_space_def)

lemma match_here_literal: "CHR ''.'' \<notin> set p \<Longrightarrow> match_here p s = prefix p s"
  by (induction p s rule: match_here.induct) auto

lemma re_search_literal: "CHR ''.'' \<notin> set p \<Longrightarrow> re_search p s = sublist p s"
  by (induction s) (auto simp: match_here_literal sublist_Cons_right)

lemma str_contains_literal:
  "list_ex (\<lambda>c. c \<in> set re_operators) pat = False \<Longrightarrow> CHR ''.'' \<notin> set pat
   \<Longrightarrow> str_contains L pat = Inr (sublist pat)"
  by (auto simp: str_contains_def re_search_literal)







section \<open>Slices and the ranking\<close>















section \<open>The query of whitespace\<close>



section \<open>The order of the recommendations\<close>




section \<open>Precision and recall\<close>







end
